theory Spec2Isabelle
  imports Main "HOL-Library.Word"
begin

section \<open>The hysteria2 server: \<^verbatim>\<open>hysteria2/service.go\<close>\<close>

text \<open>
  A shallow embedding of the server side of the hysteria2 protocol of sing-quic: the
  stream adapter \<^verbatim>\<open>serverConn\<close>, the per-connection \<^verbatim>\<open>serverSession\<close>
  (authentication, congestion-controller selection, stream hijacking, teardown) and the
  constructor \<^verbatim>\<open>NewService\<close>. Mutation of a receiver is explicit state passing: a
  method takes the receiver and returns it updated, next to its Go results. Calls on
  external objects (the QUIC stream and connection, the logger, the response writer) are
  recorded in the state in the order the code makes them.
\<close>

subsection \<open>Basic types\<close>

type_synonym uint64 = "64 word"
type_synonym bytes = "8 word list"

text \<open>
  A non-nil Go \<^verbatim>\<open>error\<close>. \<^verbatim>\<open>os.ErrClosed\<close> is the one error value the code names;
  every other error is known by the text its \<^verbatim>\<open>Error()\<close> method returns. A Go result
  of type \<^verbatim>\<open>error\<close> is an \<open>error option\<close>, \<open>None\<close> being \<^verbatim>\<open>nil\<close>.
\<close>

datatype error = ErrClosed | OtherError string

fun Error :: "error \<Rightarrow> string" where
  "Error ErrClosed = ''file already closed''"
| "Error (OtherError msg) = msg"

subsection \<open>The stream adapter \<^verbatim>\<open>serverConn\<close>\<close>

text \<open>
  What a call of \<^verbatim>\<open>c.Stream.Write\<close> is handed: either the bytes of the buffer built by
  \<^verbatim>\<open>protocol.WriteTCPResponse(ok, message, payload)\<close> (the response frame; the encoder
  lives in the protocol package, so the frame is kept by its three arguments, a nil payload
  being the empty one), or the caller's bytes as they are.
\<close>

datatype stream_data = ResponseFrame bool string bytes | Raw bytes

fun is_frame :: "stream_data \<Rightarrow> bool" where
  "is_frame (ResponseFrame ok msg payload) = True"
| "is_frame (Raw p) = False"

text \<open>
  The QUIC stream is external. Its state here is the list of the arguments of the
  \<^verbatim>\<open>Write\<close> calls made on it, oldest first; what a call returns (a byte count and an
  error) is given by a parameter \<open>io\<close>, a function of the number of earlier calls and of
  the data, so that every behaviour of the transport over one run is some \<open>io\<close>.
\<close>

type_synonym quic_stream = "stream_data list"
type_synonym stream_io = "nat \<Rightarrow> stream_data \<Rightarrow> int \<times> error option"

definition Stream_Write ::
  "stream_io \<Rightarrow> quic_stream \<Rightarrow> stream_data \<Rightarrow> (int \<times> error option) \<times> quic_stream" where
  "Stream_Write io st d = (io (length st) d, st @ [d])"

record serverConn =
  Stream :: quic_stream
  responseWritten :: bool

text \<open>
  \<^verbatim>\<open>HandshakeFailure(err)\<close>, lines 316 to 324. \<^verbatim>\<open>common.Error\<close> drops the byte count
  and returns the error. The argument is a non-nil error: the method calls
  \<^verbatim>\<open>err.Error()\<close>.
\<close>

definition HandshakeFailure ::
  "stream_io \<Rightarrow> serverConn \<Rightarrow> error \<Rightarrow> error option \<times> serverConn" where
  "HandshakeFailure io c err =
     (if responseWritten c then (Some ErrClosed, c)
      else
        (let c1 = c\<lparr>responseWritten := True\<rparr>;
             buffer = ResponseFrame False (Error err) []
         in case Stream_Write io (Stream c1) buffer of
              ((n, werr), st) \<Rightarrow> (werr, c1\<lparr>Stream := st\<rparr>)))"

text \<open>\<^verbatim>\<open>HandshakeSuccess()\<close>, lines 326 to 334.\<close>

definition HandshakeSuccess ::
  "stream_io \<Rightarrow> serverConn \<Rightarrow> error option \<times> serverConn" where
  "HandshakeSuccess io c =
     (if responseWritten c then (None, c)
      else
        (let c1 = c\<lparr>responseWritten := True\<rparr>;
             buffer = ResponseFrame True [] []
         in case Stream_Write io (Stream c1) buffer of
              ((n, werr), st) \<Rightarrow> (werr, c1\<lparr>Stream := st\<rparr>)))"

text \<open>
  \<^verbatim>\<open>Write(p)\<close>, lines 341 to 354. \<^verbatim>\<open>baderror.WrapQUIC\<close> belongs to another module; it
  is the parameter \<open>WrapQUIC\<close>, from errors (or nil) to errors (or nil).
\<close>

definition Write ::
  "(error option \<Rightarrow> error option) \<Rightarrow> stream_io \<Rightarrow> serverConn \<Rightarrow> bytes
     \<Rightarrow> (int \<times> error option) \<times> serverConn" where
  "Write WrapQUIC io c p =
     (if \<not> responseWritten c then
        (let c1 = c\<lparr>responseWritten := True\<rparr>;
             buffer = ResponseFrame True [] p
         in case Stream_Write io (Stream c1) buffer of
              ((n, err), st) \<Rightarrow>
                if err \<noteq> None then ((0, WrapQUIC err), c1\<lparr>Stream := st\<rparr>)
                else ((int (length p), None), c1\<lparr>Stream := st\<rparr>))
      else
        (case Stream_Write io (Stream c) (Raw p) of
           ((n, err), st) \<Rightarrow> ((n, WrapQUIC err), c\<lparr>Stream := st\<rparr>)))"

text \<open>
  A caller of the adapter makes a sequence of calls of the three methods; \<open>invoke\<close> makes
  one call and \<open>run\<close> a sequence, collecting the results.
\<close>

datatype call = CallHandshakeFailure error | CallHandshakeSuccess | CallWrite bytes

datatype result = Returned "error option" | Wrote int "error option"

fun invoke ::
  "(error option \<Rightarrow> error option) \<Rightarrow> stream_io \<Rightarrow> serverConn \<Rightarrow> call
     \<Rightarrow> result \<times> serverConn" where
  "invoke WrapQUIC io c (CallHandshakeFailure err) =
     (case HandshakeFailure io c err of (r, c') \<Rightarrow> (Returned r, c'))"
| "invoke WrapQUIC io c CallHandshakeSuccess =
     (case HandshakeSuccess io c of (r, c') \<Rightarrow> (Returned r, c'))"
| "invoke WrapQUIC io c (CallWrite p) =
     (case Write WrapQUIC io c p of ((n, r), c') \<Rightarrow> (Wrote n r, c'))"

fun run ::
  "(error option \<Rightarrow> error option) \<Rightarrow> stream_io \<Rightarrow> serverConn \<Rightarrow> call list
     \<Rightarrow> result list \<times> serverConn" where
  "run WrapQUIC io c [] = ([], c)"
| "run WrapQUIC io c (x # xs) =
     (case invoke WrapQUIC io c x of
        (r, c') \<Rightarrow> (case run WrapQUIC io c' xs of (rs, c'') \<Rightarrow> (r # rs, c'')))"

text \<open>The response frame a first call hands to the stream, and the bytes a later call does.\<close>

fun first_frame :: "call \<Rightarrow> stream_data" where
  "first_frame (CallHandshakeFailure err) = ResponseFrame False (Error err) []"
| "first_frame CallHandshakeSuccess = ResponseFrame True [] []"
| "first_frame (CallWrite p) = ResponseFrame True [] p"

fun later_data :: "call list \<Rightarrow> stream_data list" where
  "later_data [] = []"
| "later_data (CallWrite p # xs) = Raw p # later_data xs"
| "later_data (x # xs) = later_data xs"

subsection \<open>The protocol package and the HTTP request\<close>

text \<open>
  The wire structures of \<^verbatim>\<open>hysteria2/internal/protocol\<close>, with the fields that
  \<^verbatim>\<open>service.go\<close> reads and writes.
\<close>

record AuthRequest =
  Auth :: string
  Rx :: uint64

record AuthResponse =
  UDPEnabled :: bool
  Rx :: uint64
  RxAuto :: bool

text \<open>
  The constants of the protocol package and its header parser are declared outside
  \<^verbatim>\<open>service.go\<close>; they are the parameter \<open>P\<close> of the functions that use them. The
  type \<open>'h\<close> is that of the headers of a request, which only the parser reads.
\<close>

record 'h protocol =
  URLHost :: string
  URLPath :: string
  StatusAuthOK :: int
  FrameTypeTCPRequest :: uint64
  AuthRequestFromHeader :: "'h \<Rightarrow> AuthRequest"

definition MethodPost :: string where
  "MethodPost = ''POST''"

text \<open>The fields of \<^verbatim>\<open>*http.Request\<close> that \<^verbatim>\<open>ServeHTTP\<close> reads; \<open>Path\<close> is \<^verbatim>\<open>r.URL.Path\<close>.\<close>

record 'h http_request =
  Method :: string
  Host :: string
  Path :: string
  Header :: 'h
  RemoteAddr :: string

subsection \<open>Service options and the service\<close>

type_synonym int64 = "64 word"

text \<open>
  Interface values that the code only stores and passes on (the logger, the connection
  handler) are references compared by identity. \<^verbatim>\<open>http.NotFoundHandler()\<close> is a handler
  of its own. A context is known by its identity and by whether its \<^verbatim>\<open>Done()\<close> channel
  is non-nil.
\<close>

datatype ref = NilRef | Ref nat

datatype http_handler = NotFoundHandler | UserHandler nat

record go_context =
  ctx_id :: nat
  Done_not_nil :: bool

text \<open>The fields of \<^verbatim>\<open>tls.Config\<close> and \<^verbatim>\<open>quic.Config\<close> that \<^verbatim>\<open>NewService\<close> touches.\<close>

record tls_config =
  NextProtos :: "string list"

record quic_config =
  DisablePathManager :: bool
  DisablePathMTUDiscovery :: bool
  EnableDatagrams :: bool
  MaxIncomingStreams :: int64
  InitialStreamReceiveWindow :: uint64
  MaxStreamReceiveWindow :: uint64
  InitialConnectionReceiveWindow :: uint64
  MaxConnectionReceiveWindow :: uint64
  MaxIdleTimeout :: int64
  KeepAlivePeriod :: int64

text \<open>\<^verbatim>\<open>&quic.Config{}\<close>: every field has its zero value.\<close>

definition zero_quic_config :: quic_config where
  "zero_quic_config =
     \<lparr>DisablePathManager = False, DisablePathMTUDiscovery = False, EnableDatagrams = False,
      MaxIncomingStreams = 0, InitialStreamReceiveWindow = 0, MaxStreamReceiveWindow = 0,
      InitialConnectionReceiveWindow = 0, MaxConnectionReceiveWindow = 0,
      MaxIdleTimeout = 0, KeepAlivePeriod = 0\<rparr>"

text \<open>
  The package constants \<^verbatim>\<open>DefaultStreamReceiveWindow\<close>, \<^verbatim>\<open>DefaultConnReceiveWindow\<close>,
  \<^verbatim>\<open>DefaultMaxIdleTimeout\<close> and \<^verbatim>\<open>DefaultKeepAlivePeriod\<close> are declared in another
  file of the package; they are the parameter \<open>D\<close> of \<open>NewService\<close>.
\<close>

record defaults =
  DefaultStreamReceiveWindow :: uint64
  DefaultConnReceiveWindow :: uint64
  DefaultMaxIdleTimeout :: int64
  DefaultKeepAlivePeriod :: int64

text \<open>\<^verbatim>\<open>ServiceOptions\<close>, lines 30 to 46. The two pointers may be nil.\<close>

record ServiceOptions =
  Context :: go_context
  Logger :: ref
  BrutalDebug :: bool
  SendBPS :: uint64
  ReceiveBPS :: uint64
  IgnoreClientBandwidth :: bool
  SalamanderPassword :: string
  TLSConfig :: "tls_config option"
  QUICConfig :: "quic_config option"
  UDPDisabled :: bool
  UDPTimeout :: int64
  Handler :: ref
  MasqueradeHandler :: "http_handler option"
  CWND :: int
  UdpMTU :: int

text \<open>
  \<^verbatim>\<open>Service[U]\<close>, lines 53 to 71. The two configurations are held by value: what the
  service's pointers point to once \<^verbatim>\<open>NewService\<close> has returned.
\<close>

record 'u Service =
  ctx :: go_context
  logger :: ref
  brutalDebug :: bool
  sendBPS :: uint64
  receiveBPS :: uint64
  ignoreClientBandwidth :: bool
  salamanderPassword :: string
  tlsConfig :: tls_config
  quicConfig :: quic_config
  userMap :: "string \<rightharpoonup> 'u"
  udpDisabled :: bool
  udpTimeout :: int64
  handler :: ref
  masqueradeHandler :: "http_handler option"
  quicListener :: ref
  cwnd :: int
  udpMTU :: int

datatype panic = NilPointerDereference | CauseOnNilError

text \<open>
  \<^verbatim>\<open>NewService\<close>, lines 73 to 126. \<open>GOOS\<close> is \<^verbatim>\<open>runtime.GOOS\<close>. The function updates
  the configurations through the caller's pointers and its own copy of the options; the
  successive \<open>let\<close>s are these assignments in order. Reading \<^verbatim>\<open>NextProtos\<close> through a
  nil \<^verbatim>\<open>TLSConfig\<close> panics. The Go results are the service and a nil error.
\<close>

definition NewService ::
  "defaults \<Rightarrow> string \<Rightarrow> ServiceOptions \<Rightarrow> panic + ('u Service \<times> error option)" where
  "NewService D GOOS options =
     (let quicConfig = (case QUICConfig options of None \<Rightarrow> zero_quic_config | Some q \<Rightarrow> q);
          quicConfig = quicConfig\<lparr>DisablePathManager := True\<rparr>;
          quicConfig = quicConfig\<lparr>DisablePathMTUDiscovery :=
            \<not> (GOOS = ''windows'' \<or> GOOS = ''linux'' \<or> GOOS = ''android'' \<or> GOOS = ''darwin'')\<rparr>;
          quicConfig = quicConfig\<lparr>EnableDatagrams := \<not> UDPDisabled options\<rparr>;
          quicConfig = (if MaxIncomingStreams quicConfig = 0
            then quicConfig\<lparr>MaxIncomingStreams := push_bit 60 1\<rparr> else quicConfig);
          quicConfig = (if InitialStreamReceiveWindow quicConfig = 0
            then quicConfig\<lparr>InitialStreamReceiveWindow := DefaultStreamReceiveWindow D\<rparr>
            else quicConfig);
          quicConfig = (if MaxStreamReceiveWindow quicConfig = 0
            then quicConfig\<lparr>MaxStreamReceiveWindow := DefaultStreamReceiveWindow D\<rparr>
            else quicConfig);
          quicConfig = (if InitialConnectionReceiveWindow quicConfig = 0
            then quicConfig\<lparr>InitialConnectionReceiveWindow := DefaultConnReceiveWindow D\<rparr>
            else quicConfig);
          quicConfig = (if MaxConnectionReceiveWindow quicConfig = 0
            then quicConfig\<lparr>MaxConnectionReceiveWindow := DefaultConnReceiveWindow D\<rparr>
            else quicConfig);
          quicConfig = (if MaxIdleTimeout quicConfig = 0
            then quicConfig\<lparr>MaxIdleTimeout := DefaultMaxIdleTimeout D\<rparr> else quicConfig);
          quicConfig = (if KeepAlivePeriod quicConfig = 0
            then quicConfig\<lparr>KeepAlivePeriod := DefaultKeepAlivePeriod D\<rparr> else quicConfig);
          options = (if MasqueradeHandler options = None
            then options\<lparr>MasqueradeHandler := Some NotFoundHandler\<rparr> else options)
      in case TLSConfig options of
           None \<Rightarrow> Inl NilPointerDereference
         | Some t \<Rightarrow>
             (let t = (if length (NextProtos t) = 0 then t\<lparr>NextProtos := [''h3'']\<rparr> else t)
              in Inr (\<lparr>ctx = Context options,
                        logger = Logger options,
                        brutalDebug = BrutalDebug options,
                        sendBPS = SendBPS options,
                        receiveBPS = ReceiveBPS options,
                        ignoreClientBandwidth = IgnoreClientBandwidth options,
                        salamanderPassword = SalamanderPassword options,
                        tlsConfig = t,
                        quicConfig = quicConfig,
                        userMap = Map.empty,
                        udpDisabled = UDPDisabled options,
                        udpTimeout = UDPTimeout options,
                        handler = Handler options,
                        masqueradeHandler = MasqueradeHandler options,
                        quicListener = NilRef,
                        cwnd = CWND options,
                        udpMTU = UdpMTU options\<rparr>, None)))"

subsection \<open>The session\<close>

text \<open>
  The calls the session makes on its \<^verbatim>\<open>*quic.Conn\<close>:
  \<^verbatim>\<open>SetCongestionControl(hyCC.NewBrutalSender(rx, debug, logger))\<close>,
  \<^verbatim>\<open>SetCongestionController(conn, name, cwnd)\<close> and \<^verbatim>\<open>CloseWithError(code, text)\<close>.
\<close>

datatype conn_call =
    SetCongestionControl_BrutalSender uint64 bool ref
  | SetCongestionController string int
  | CloseWithError nat string

text \<open>
  Lines handed to the logger. \<open>Cause err msg\<close> is \<^verbatim>\<open>E.Cause(err, msg)\<close> of the
  exceptions package, for a non-nil \<open>err\<close>; on a nil error \<^verbatim>\<open>E.Cause\<close> panics.
\<close>

datatype log_arg = Text string | Cause error string

datatype log_line = Debug "log_arg list" | Error_line "log_arg list"

text \<open>
  The goroutines a session starts: the watcher of the context (lines 244 to 250), the
  datagram loop \<^verbatim>\<open>loopMessages\<close> and the handler of a hijacked stream (lines 267 to
  276), the stream known by a number.
\<close>

datatype goroutine = ContextWatcher | LoopMessages | HandleStream nat

text \<open>
  \<^verbatim>\<open>serverSession[U]\<close>, lines 190 to 201. The embedded service is the field
  \<open>Service\<close>; \<open>connDone\<close> tells whether the channel is closed; \<open>quicConn\<close> is the list
  of the calls made on the connection, \<open>logged\<close> the lines logged and \<open>started\<close> the
  goroutines started, each oldest first. The context and the logger of a session are
  taken to be non-nil.
\<close>

record 'u serverSession =
  Service :: "'u Service"
  ctx :: go_context
  quicConn :: "conn_call list"
  connDone :: bool
  connErr :: "error option"
  authenticated :: bool
  authUser :: 'u
  logged :: "log_line list"
  started :: "goroutine list"

text \<open>
  What \<^verbatim>\<open>ServeHTTP\<close> does with the response writer: it writes the headers of an
  \<^verbatim>\<open>AuthResponse\<close> and a status code, or hands writer and request to the masquerade
  handler.
\<close>

datatype 'h http_reply =
    AuthReply AuthResponse int
  | MasqueradeReply "http_handler option" "'h http_request"

text \<open>\<^verbatim>\<open>ServeHTTP\<close>, lines 203 to 258.\<close>

definition ServeHTTP ::
  "'h protocol \<Rightarrow> 'u serverSession \<Rightarrow> 'h http_request
     \<Rightarrow> 'h http_reply \<times> 'u serverSession" where
  "ServeHTTP P s r =
     (let S = Service s in
      if Method r = MethodPost \<and> Host r = URLHost P \<and> Path r = URLPath P then
        if authenticated s then
          (AuthReply
             \<lparr>UDPEnabled = \<not> udpDisabled S,
              Rx = receiveBPS S,
              RxAuto = (receiveBPS S = 0 \<and> ignoreClientBandwidth S)\<rparr>
             (StatusAuthOK P), s)
        else
          (let request = AuthRequestFromHeader P (Header r) in
           case userMap S (Auth request) of
             None \<Rightarrow> (MasqueradeReply (masqueradeHandler S) r, s)
           | Some user \<Rightarrow>
               (let s = s\<lparr>authUser := user\<rparr>;
                    s = s\<lparr>authenticated := True\<rparr>
                in
                if receiveBPS S > 0 \<and> ignoreClientBandwidth S \<and> AuthRequest.Rx request = 0 then
                  (MasqueradeReply (masqueradeHandler S) r,
                   s\<lparr>logged := logged s @
                      [Debug [Text ''process connection from '', Text (RemoteAddr r),
                              Text '': BBR disabled by server'']]\<rparr>)
                else
                  (case
                     (if \<not> (receiveBPS S = 0 \<and> ignoreClientBandwidth S)
                           \<and> AuthRequest.Rx request > 0 then
                        (let rx = AuthRequest.Rx request;
                             rx = (if sendBPS S > 0 \<and> rx > sendBPS S then sendBPS S else rx)
                         in (s\<lparr>quicConn := quicConn s @
                                [SetCongestionControl_BrutalSender rx (brutalDebug S) (logger S)]\<rparr>,
                             False))
                      else
                        (s\<lparr>quicConn := quicConn s @ [SetCongestionController ''bbr'' (cwnd S)]\<rparr>,
                         True))
                   of (s, rxAuto) \<Rightarrow>
                     (let reply = AuthReply
                            \<lparr>UDPEnabled = \<not> udpDisabled S,
                             Rx = receiveBPS S,
                             RxAuto = rxAuto\<rparr>
                            (StatusAuthOK P);
                          s = (if Done_not_nil (serverSession.ctx s)
                               then s\<lparr>started := started s @ [ContextWatcher]\<rparr> else s);
                          s = (if \<not> udpDisabled S
                               then s\<lparr>started := started s @ [LoopMessages]\<rparr> else s)
                      in (reply, s)))))
      else (MasqueradeReply (masqueradeHandler S) r, s))"

text \<open>
  \<^verbatim>\<open>handleStream0\<close>, lines 260 to 278: the stream hijacker. The tracing identifier is
  not used. The Go results are the pair of a boolean and an error.
\<close>

definition handleStream0 ::
  "'h protocol \<Rightarrow> 'u serverSession \<Rightarrow> uint64 \<Rightarrow> nat \<Rightarrow> error option
     \<Rightarrow> (bool \<times> error option) \<times> 'u serverSession" where
  "handleStream0 P s frameType stream err =
     (if \<not> authenticated s \<or> err \<noteq> None then ((False, None), s)
      else if frameType \<noteq> FrameTypeTCPRequest P then ((False, None), s)
      else ((True, None), s\<lparr>started := started s @ [HandleStream stream]\<rparr>))"



subsection \<open>Sessions, adapters and scenarios\<close>

text \<open>
  The session that \<^verbatim>\<open>handleConnection\<close> builds for an accepted connection (lines 175
  to 181), \<open>zero\<close> being the zero value of \<open>U\<close>, and the adapter that \<^verbatim>\<open>handleStream\<close>
  builds for a hijacked stream (line 286).
\<close>

definition new_session :: "'u Service \<Rightarrow> 'u \<Rightarrow> 'u serverSession" where
  "new_session S zero =
     \<lparr>Service = S, ctx = Service.ctx S, quicConn = [], connDone = False, connErr = None,
      authenticated = False, authUser = zero, logged = [], started = []\<rparr>"

definition new_serverConn :: serverConn where
  "new_serverConn = \<lparr>Stream = [], responseWritten = False\<rparr>"

text \<open>A stream whose every \<^verbatim>\<open>Write\<close> returns the same count and error.\<close>

definition always :: "int \<times> error option \<Rightarrow> stream_io" where
  "always r k d = r"

text \<open>
  The end-to-end scenarios of the specification: a choice of protocol constants, an
  authentication request whose headers are known by what they decode to, and a service
  with the secret \<open>s1\<close> registered to the identity 1, given its send cap, its receive
  rate and whether it ignores the client's rate. Then options for \<^verbatim>\<open>NewService\<close> that
  leave the masquerade handler, the TLS protocol list and all but two tuning fields unset,
  and a choice of defaults.
\<close>

definition scenario_protocol :: "AuthRequest protocol" where
  "scenario_protocol =
     \<lparr>URLHost = ''hysteria'', URLPath = ''/auth'', StatusAuthOK = 233,
      FrameTypeTCPRequest = 1025, AuthRequestFromHeader = id\<rparr>"

definition scenario_request :: "string \<Rightarrow> uint64 \<Rightarrow> AuthRequest http_request" where
  "scenario_request secret rate =
     \<lparr>Method = ''POST'', Host = ''hysteria'', Path = ''/auth'',
      Header = \<lparr>Auth = secret, Rx = rate\<rparr>, RemoteAddr = ''192.0.2.1:50000''\<rparr>"

definition scenario_service :: "uint64 \<Rightarrow> uint64 \<Rightarrow> bool \<Rightarrow> nat Service" where
  "scenario_service send recv ignore =
     \<lparr>Service.ctx = \<lparr>ctx_id = 0, Done_not_nil = True\<rparr>, logger = Ref 0, brutalDebug = False,
      sendBPS = send, receiveBPS = recv, ignoreClientBandwidth = ignore,
      salamanderPassword = [], tlsConfig = \<lparr>NextProtos = [''h3'']\<rparr>,
      quicConfig = zero_quic_config, userMap = [''s1'' \<mapsto> 1], udpDisabled = False,
      udpTimeout = 0, handler = Ref 1, masqueradeHandler = Some NotFoundHandler,
      quicListener = Ref 2, cwnd = 32, udpMTU = 1200\<rparr>"

definition scenario_options :: ServiceOptions where
  "scenario_options =
     \<lparr>Context = \<lparr>ctx_id = 0, Done_not_nil = True\<rparr>, Logger = Ref 0, BrutalDebug = False,
      SendBPS = 500000, ReceiveBPS = 200000, IgnoreClientBandwidth = True,
      SalamanderPassword = [], TLSConfig = Some \<lparr>NextProtos = []\<rparr>,
      QUICConfig = Some (zero_quic_config\<lparr>MaxIdleTimeout := 7, MaxStreamReceiveWindow := 9\<rparr>),
      UDPDisabled = False, UDPTimeout = 60, Handler = Ref 1, MasqueradeHandler = None,
      CWND = 32, UdpMTU = 1200\<rparr>"

definition scenario_defaults :: defaults where
  "scenario_defaults =
     \<lparr>DefaultStreamReceiveWindow = 8388608, DefaultConnReceiveWindow = 20971520,
      DefaultMaxIdleTimeout = 30000000000, DefaultKeepAlivePeriod = 10000000000\<rparr>"


subsection \<open>Properties of the stream adapter\<close>

lemma invoke_written:
  "responseWritten c \<Longrightarrow>
     responseWritten (snd (invoke WrapQUIC io c x)) \<and>
     Stream (snd (invoke WrapQUIC io c x)) = Stream c @ later_data [x]"
  by (cases x)
     (simp_all add: HandshakeFailure_def HandshakeSuccess_def Write_def Stream_Write_def
        split: prod.splits)

lemma invoke_first:
  "\<not> responseWritten c \<Longrightarrow>
     responseWritten (snd (invoke WrapQUIC io c x)) \<and>
     Stream (snd (invoke WrapQUIC io c x)) = Stream c @ [first_frame x]"
  by (cases x)
     (simp_all add: HandshakeFailure_def HandshakeSuccess_def Write_def Stream_Write_def
        Let_def split: prod.splits)

lemma later_data_append_one: "later_data (x # xs) = later_data [x] @ later_data xs"
  by (cases x) simp_all

lemma run_written:
  "responseWritten c \<Longrightarrow>
     responseWritten (snd (run WrapQUIC io c xs)) \<and>
     Stream (snd (run WrapQUIC io c xs)) = Stream c @ later_data xs"
proof (induction xs arbitrary: c)
  case Nil
  then show ?case by simp
next
  case (Cons x xs)
  obtain r c' where inv: "invoke WrapQUIC io c x = (r, c')"
    by (cases "invoke WrapQUIC io c x")
  from invoke_written [OF Cons.prems, of WrapQUIC io x] inv
  have c': "responseWritten c'" "Stream c' = Stream c @ later_data [x]"
    by simp_all
  from Cons.IH [OF c'(1)] c'(2) inv show ?case
    by (simp add: later_data_append_one [of x xs] case_prod_beta)
qed

lemma HandshakeFailure_written:
  "responseWritten c \<Longrightarrow> HandshakeFailure io c err = (Some ErrClosed, c)"
  by (simp add: HandshakeFailure_def)

lemma HandshakeSuccess_written:
  "responseWritten c \<Longrightarrow> HandshakeSuccess io c = (None, c)"
  by (simp add: HandshakeSuccess_def)

lemma Write_written:
  "responseWritten c \<Longrightarrow>
     Write WrapQUIC io c p =
       ((fst (io (length (Stream c)) (Raw p)), WrapQUIC (snd (io (length (Stream c)) (Raw p)))),
        c\<lparr>Stream := Stream c @ [Raw p]\<rparr>)"
  by (simp add: Write_def Stream_Write_def case_prod_beta)

lemma Write_first:
  "\<not> responseWritten c \<Longrightarrow>
     Write WrapQUIC io c p =
       ((if snd (io (length (Stream c)) (ResponseFrame True [] p)) \<noteq> None
         then (0, WrapQUIC (snd (io (length (Stream c)) (ResponseFrame True [] p))))
         else (int (length p), None)),
        c\<lparr>responseWritten := True, Stream := Stream c @ [ResponseFrame True [] p]\<rparr>)"
  by (simp add: Write_def Stream_Write_def case_prod_beta Let_def)

lemma later_data_no_frame: "filter is_frame (later_data xs) = []"
  by (induction xs rule: later_data.induct) simp_all

lemma is_frame_first_frame: "is_frame (first_frame x)"
  by (cases x) simp_all

lemma run_Cons_fst:
  "fst (run WrapQUIC io c (x # xs)) =
     fst (invoke WrapQUIC io c x) # fst (run WrapQUIC io (snd (invoke WrapQUIC io c x)) xs)"
  by (simp add: case_prod_beta)

lemma run_Cons_snd:
  "snd (run WrapQUIC io c (x # xs)) = snd (run WrapQUIC io (snd (invoke WrapQUIC io c x)) xs)"
  by (simp add: case_prod_beta)

lemma invoke_signal_written:
  "responseWritten c \<Longrightarrow>
     fst (invoke WrapQUIC io c (CallHandshakeFailure e)) = Returned (Some ErrClosed) \<and>
     fst (invoke WrapQUIC io c CallHandshakeSuccess) = Returned None"
  by (simp add: HandshakeFailure_written HandshakeSuccess_written)

lemma run_signal_results:
  "responseWritten c \<Longrightarrow> i < length xs \<Longrightarrow>
     (xs ! i = CallHandshakeFailure e \<longrightarrow> fst (run WrapQUIC io c xs) ! i = Returned (Some ErrClosed)) \<and>
     (xs ! i = CallHandshakeSuccess \<longrightarrow> fst (run WrapQUIC io c xs) ! i = Returned None)"
proof (induction xs arbitrary: c i)
  case Nil
  then show ?case by simp
next
  case (Cons x xs)
  have w: "responseWritten (snd (invoke WrapQUIC io c x))"
    using invoke_written [OF Cons.prems(1)] by blast
  show ?case
  proof (cases i)
    case 0
    then show ?thesis
      using invoke_signal_written [OF Cons.prems(1), of WrapQUIC io e]
      by (auto simp add: run_Cons_fst simp del: run.simps invoke.simps)
  next
    case (Suc j)
    with Cons.prems have "j < length xs" by simp
    from Cons.IH [OF w this] Suc show ?thesis
      by (simp add: run_Cons_fst del: run.simps invoke.simps)
  qed
qed

subsection \<open>The response frame is emitted once\<close>

text \<open>
  Claim C3, as the code has it. On an adapter that has written no response, the first
  call of a sequence of calls of \<^verbatim>\<open>HandshakeFailure\<close>, \<^verbatim>\<open>HandshakeSuccess\<close> and
  \<^verbatim>\<open>Write\<close> hands the response frame to the stream, and it is the only frame of the
  whole sequence: what the stream is handed afterwards is the bytes of the later
  \<^verbatim>\<open>Write\<close> calls, unframed. Every later \<^verbatim>\<open>HandshakeFailure\<close> returns
  \<^verbatim>\<open>os.ErrClosed\<close>, and every later \<^verbatim>\<open>HandshakeSuccess\<close> returns nil.
\<close>

theorem response_frame_emitted_once:
  "\<not> responseWritten c \<Longrightarrow>
     Stream (snd (invoke WrapQUIC io c x)) = Stream c @ [first_frame x] \<and>
     Stream (snd (run WrapQUIC io c (x # xs))) = Stream c @ first_frame x # later_data xs \<and>
     filter is_frame (first_frame x # later_data xs) = [first_frame x] \<and>
     (\<forall>i<length xs. \<forall>e.
        (xs ! i = CallHandshakeFailure e \<longrightarrow>
           fst (run WrapQUIC io c (x # xs)) ! Suc i = Returned (Some ErrClosed)) \<and>
        (xs ! i = CallHandshakeSuccess \<longrightarrow>
           fst (run WrapQUIC io c (x # xs)) ! Suc i = Returned None))"
proof -
  assume fresh: "\<not> responseWritten c"
  let ?c1 = "snd (invoke WrapQUIC io c x)"
  from invoke_first [OF fresh, of WrapQUIC io x]
  have c1: "responseWritten ?c1" "Stream ?c1 = Stream c @ [first_frame x]"
    by simp_all
  have a: "Stream (snd (run WrapQUIC io c (x # xs))) = Stream c @ first_frame x # later_data xs"
    using run_written [OF c1(1), of WrapQUIC io xs] c1(2)
    by (simp add: run_Cons_snd del: run.simps)
  have b: "filter is_frame (first_frame x # later_data xs) = [first_frame x]"
    by (simp add: later_data_no_frame is_frame_first_frame)
  have d: "\<forall>i<length xs. \<forall>e.
        (xs ! i = CallHandshakeFailure e \<longrightarrow>
           fst (run WrapQUIC io c (x # xs)) ! Suc i = Returned (Some ErrClosed)) \<and>
        (xs ! i = CallHandshakeSuccess \<longrightarrow>
           fst (run WrapQUIC io c (x # xs)) ! Suc i = Returned None)"
    using run_signal_results [OF c1(1)]
    by (simp add: run_Cons_fst del: run.simps)
  from c1(2) a b d show ?thesis by blast
qed

theorem response_frame_emitted_once_witness:
  "\<not> responseWritten new_serverConn \<and>
   Stream (snd (run id (always (2, None)) new_serverConn
      [CallWrite [1, 2], CallHandshakeSuccess, CallHandshakeFailure (OtherError ''refused''),
       CallWrite [3]])) = [ResponseFrame True [] [1, 2], Raw [3]] \<and>
   fst (run id (always (2, None)) new_serverConn
      [CallWrite [1, 2], CallHandshakeSuccess, CallHandshakeFailure (OtherError ''refused''),
       CallWrite [3]]) ! 1 = Returned None \<and>
   fst (run id (always (2, None)) new_serverConn
      [CallWrite [1, 2], CallHandshakeSuccess, CallHandshakeFailure (OtherError ''refused''),
       CallWrite [3]]) ! 2 = Returned (Some ErrClosed)"
proof -
  have fresh: "\<not> responseWritten new_serverConn"
    by (simp add: new_serverConn_def)
  note t = response_frame_emitted_once [OF fresh, of id "always (2, None)" "CallWrite [1, 2]"
      "[CallHandshakeSuccess, CallHandshakeFailure (OtherError ''refused''), CallWrite [3]]"]
  from t have s: "Stream (snd (run id (always (2, None)) new_serverConn
      [CallWrite [1, 2], CallHandshakeSuccess, CallHandshakeFailure (OtherError ''refused''),
       CallWrite [3]])) = [ResponseFrame True [] [1, 2], Raw [3]]"
    by (simp add: new_serverConn_def del: run.simps)
  from t have r: "\<forall>i<3. \<forall>e.
        ([CallHandshakeSuccess, CallHandshakeFailure (OtherError ''refused''), CallWrite [3]] ! i
            = CallHandshakeFailure e \<longrightarrow>
           fst (run id (always (2, None)) new_serverConn
      [CallWrite [1, 2], CallHandshakeSuccess, CallHandshakeFailure (OtherError ''refused''),
       CallWrite [3]]) ! Suc i = Returned (Some ErrClosed)) \<and>
        ([CallHandshakeSuccess, CallHandshakeFailure (OtherError ''refused''), CallWrite [3]] ! i
            = CallHandshakeSuccess \<longrightarrow>
           fst (run id (always (2, None)) new_serverConn
      [CallWrite [1, 2], CallHandshakeSuccess, CallHandshakeFailure (OtherError ''refused''),
       CallWrite [3]]) ! Suc i = Returned None)"
    by (simp del: run.simps)
  from r [rule_format, of 0] have r1: "fst (run id (always (2, None)) new_serverConn
      [CallWrite [1, 2], CallHandshakeSuccess, CallHandshakeFailure (OtherError ''refused''),
       CallWrite [3]]) ! 1 = Returned None"
    by (simp del: run.simps)
  from r [rule_format, of 1 "OtherError ''refused''"] have r2: "fst (run id (always (2, None)) new_serverConn
      [CallWrite [1, 2], CallHandshakeSuccess, CallHandshakeFailure (OtherError ''refused''),
       CallWrite [3]]) ! 2 = Returned (Some ErrClosed)"
    by (simp del: run.simps add: numeral_2_eq_2)
  from fresh s r1 r2 show ?thesis by blast
qed

text \<open>
  A second \<^verbatim>\<open>HandshakeSuccess\<close> does not fail with \<^verbatim>\<open>os.ErrClosed\<close>: it returns nil
  (line 328), and the stream still holds the one frame of the first call.
\<close>

theorem second_HandshakeSuccess_counterexample:
  "fst (HandshakeSuccess (always (2, None))
          (snd (HandshakeSuccess (always (2, None)) new_serverConn))) \<noteq> Some ErrClosed \<and>
   fst (HandshakeSuccess (always (2, None))
          (snd (HandshakeSuccess (always (2, None)) new_serverConn))) = None \<and>
   Stream (snd (HandshakeSuccess (always (2, None))
          (snd (HandshakeSuccess (always (2, None)) new_serverConn)))) = [ResponseFrame True [] []]"
  by (simp add: HandshakeSuccess_def new_serverConn_def Stream_Write_def always_def)

subsection \<open>The first write carries the response\<close>

text \<open>
  Claim C6. On an adapter that has written no response, \<^verbatim>\<open>Write(p)\<close> sets
  \<open>responseWritten\<close> and hands the stream the success frame with \<open>p\<close> as its payload;
  when the stream reports no error it returns \<open>len(p)\<close> and nil. After it, whatever calls
  come in between, a \<^verbatim>\<open>Write(q)\<close> hands the stream \<open>q\<close> as it is and returns the
  stream's count with the translated error.
\<close>

theorem Write_implicit_success:
  "\<not> responseWritten c \<Longrightarrow>
     responseWritten (snd (Write WrapQUIC io c p)) \<and>
     Stream (snd (Write WrapQUIC io c p)) = Stream c @ [ResponseFrame True [] p] \<and>
     (snd (io (length (Stream c)) (ResponseFrame True [] p)) = None \<longrightarrow>
        fst (Write WrapQUIC io c p) = (int (length p), None)) \<and>
     (\<forall>xs q.
        let c2 = snd (run WrapQUIC io (snd (Write WrapQUIC io c p)) xs);
            r = io (length (Stream c2)) (Raw q)
        in Write WrapQUIC io c2 q = ((fst r, WrapQUIC (snd r)), c2\<lparr>Stream := Stream c2 @ [Raw q]\<rparr>))"
proof -
  assume fresh: "\<not> responseWritten c"
  let ?c1 = "snd (Write WrapQUIC io c p)"
  have c1: "responseWritten ?c1" "Stream ?c1 = Stream c @ [ResponseFrame True [] p]"
    by (simp_all add: Write_first [OF fresh])
  have ok: "snd (io (length (Stream c)) (ResponseFrame True [] p)) = None \<longrightarrow>
        fst (Write WrapQUIC io c p) = (int (length p), None)"
    by (simp add: Write_first [OF fresh])
  have later: "let c2 = snd (run WrapQUIC io ?c1 xs); r = io (length (Stream c2)) (Raw q)
        in Write WrapQUIC io c2 q = ((fst r, WrapQUIC (snd r)), c2\<lparr>Stream := Stream c2 @ [Raw q]\<rparr>)"
    for xs q
  proof -
    from run_written [OF c1(1), of WrapQUIC io xs]
    have "responseWritten (snd (run WrapQUIC io ?c1 xs))"
      by simp
    then show ?thesis
      by (simp add: Write_written Let_def)
  qed
  from c1 ok later show ?thesis by blast
qed

theorem Write_implicit_success_witness:
  "\<not> responseWritten new_serverConn \<and>
   snd (always (9, None) (length (Stream new_serverConn)) (ResponseFrame True [] [1, 2, 3])) = None \<and>
   fst (Write id (always (9, None)) new_serverConn [1, 2, 3]) = (3, None) \<and>
   Stream (snd (Write id (always (9, None)) new_serverConn [1, 2, 3])) =
     [ResponseFrame True [] [1, 2, 3]] \<and>
   Stream (snd (Write id (always (9, None))
      (snd (run id (always (9, None)) (snd (Write id (always (9, None)) new_serverConn [1, 2, 3]))
         [CallHandshakeSuccess])) [4, 5])) = [ResponseFrame True [] [1, 2, 3], Raw [4, 5]]"
proof -
  have fresh: "\<not> responseWritten new_serverConn"
    by (simp add: new_serverConn_def)
  have ok: "snd (always (9, None) (length (Stream new_serverConn)) (ResponseFrame True [] [1, 2, 3])) = None"
    by (simp add: always_def)
  note t = Write_implicit_success [OF fresh, of id "always (9, None)" "[1, 2, 3]"]
  from t ok have n: "fst (Write id (always (9, None)) new_serverConn [1, 2, 3]) = (3, None)"
    by simp
  from t have s: "Stream (snd (Write id (always (9, None)) new_serverConn [1, 2, 3])) =
     [ResponseFrame True [] [1, 2, 3]]"
    by (simp add: new_serverConn_def)
  from t have w: "responseWritten (snd (Write id (always (9, None)) new_serverConn [1, 2, 3]))"
    by blast
  from t have "let c2 = snd (run id (always (9, None))
         (snd (Write id (always (9, None)) new_serverConn [1, 2, 3])) [CallHandshakeSuccess]);
            r = always (9, None) (length (Stream c2)) (Raw [4, 5])
        in Write id (always (9, None)) c2 [4, 5] = ((fst r, id (snd r)), c2\<lparr>Stream := Stream c2 @ [Raw [4, 5]]\<rparr>)"
    by blast
  then have l: "Stream (snd (Write id (always (9, None))
      (snd (run id (always (9, None)) (snd (Write id (always (9, None)) new_serverConn [1, 2, 3]))
         [CallHandshakeSuccess])) [4, 5])) = [ResponseFrame True [] [1, 2, 3], Raw [4, 5]]"
    using s w by (simp add: Let_def HandshakeSuccess_def)
  from fresh ok n s l show ?thesis by blast
qed

text \<open>
  Claim C10. When the stream fails to write the frame of a first \<^verbatim>\<open>Write(p)\<close>, the
  adapter returns the count 0 and the translated error, whatever count the stream
  reported, although the frame handed to the stream carried \<open>p\<close>.
\<close>

theorem Write_first_failure_returns_zero:
  "\<not> responseWritten c \<Longrightarrow>
   snd (io (length (Stream c)) (ResponseFrame True [] p)) = Some e \<Longrightarrow>
     fst (Write WrapQUIC io c p) = (0, WrapQUIC (Some e)) \<and>
     Stream (snd (Write WrapQUIC io c p)) = Stream c @ [ResponseFrame True [] p]"
  by (simp add: Write_first)

theorem Write_first_failure_returns_zero_witness:
  "\<not> responseWritten new_serverConn \<and>
   snd (always (4, Some (OtherError ''stream reset'')) (length (Stream new_serverConn))
          (ResponseFrame True [] [1, 2, 3])) = Some (OtherError ''stream reset'') \<and>
   fst (Write id (always (4, Some (OtherError ''stream reset''))) new_serverConn [1, 2, 3]) =
     (0, Some (OtherError ''stream reset''))"
proof -
  have fresh: "\<not> responseWritten new_serverConn"
    by (simp add: new_serverConn_def)
  have fails: "snd (always (4, Some (OtherError ''stream reset'')) (length (Stream new_serverConn))
          (ResponseFrame True [] [1, 2, 3])) = Some (OtherError ''stream reset'')"
    by (simp add: always_def)
  from Write_first_failure_returns_zero
      [where c = new_serverConn and io = "always (4, Some (OtherError ''stream reset''))"
         and p = "[1, 2, 3]" and e = "OtherError ''stream reset''" and WrapQUIC = id]
    fresh fails
  show ?thesis by simp
qed

text \<open>
  Claim C9. Each of the three methods sets \<open>responseWritten\<close> before it writes, so a
  first call whose write of the frame fails returns the error and still leaves the flag
  set. After it, whatever calls follow, the stream is handed no other frame:
  \<^verbatim>\<open>HandshakeFailure\<close> returns \<^verbatim>\<open>os.ErrClosed\<close>, \<^verbatim>\<open>HandshakeSuccess\<close> returns nil,
  both without a write, and \<^verbatim>\<open>Write\<close> hands the stream its bytes unframed.
\<close>

theorem response_not_retried_after_failed_write:
  "\<not> responseWritten c \<Longrightarrow>
   snd (io (length (Stream c)) (first_frame x)) = Some e \<Longrightarrow>
     (let c1 = snd (invoke WrapQUIC io c x) in
        fst (invoke WrapQUIC io c x) =
          (case x of CallWrite p \<Rightarrow> Wrote 0 (WrapQUIC (Some e)) | _ \<Rightarrow> Returned (Some e)) \<and>
        responseWritten c1 \<and>
        Stream c1 = Stream c @ [first_frame x] \<and>
        (\<forall>xs. let c2 = snd (run WrapQUIC io c1 xs) in
           Stream c2 = Stream c1 @ later_data xs \<and>
           filter is_frame (later_data xs) = [] \<and>
           (\<forall>err. HandshakeFailure io c2 err = (Some ErrClosed, c2)) \<and>
           HandshakeSuccess io c2 = (None, c2) \<and>
           (\<forall>q. Stream (snd (Write WrapQUIC io c2 q)) = Stream c2 @ [Raw q])))"
proof -
  assume fresh: "\<not> responseWritten c"
    and fails: "snd (io (length (Stream c)) (first_frame x)) = Some e"
  let ?c1 = "snd (invoke WrapQUIC io c x)"
  have r: "fst (invoke WrapQUIC io c x) =
          (case x of CallWrite p \<Rightarrow> Wrote 0 (WrapQUIC (Some e)) | _ \<Rightarrow> Returned (Some e))"
    using fresh fails
    by (cases x)
       (simp_all add: HandshakeFailure_def HandshakeSuccess_def Write_first Stream_Write_def
          case_prod_beta Let_def)
  from invoke_first [OF fresh, of WrapQUIC io x]
  have c1: "responseWritten ?c1" "Stream ?c1 = Stream c @ [first_frame x]"
    by simp_all
  have later: "let c2 = snd (run WrapQUIC io ?c1 xs) in
           Stream c2 = Stream ?c1 @ later_data xs \<and>
           filter is_frame (later_data xs) = [] \<and>
           (\<forall>err. HandshakeFailure io c2 err = (Some ErrClosed, c2)) \<and>
           HandshakeSuccess io c2 = (None, c2) \<and>
           (\<forall>q. Stream (snd (Write WrapQUIC io c2 q)) = Stream c2 @ [Raw q])" for xs
  proof -
    from run_written [OF c1(1), of WrapQUIC io xs]
    have c2: "responseWritten (snd (run WrapQUIC io ?c1 xs))"
      "Stream (snd (run WrapQUIC io ?c1 xs)) = Stream ?c1 @ later_data xs"
      by simp_all
    show ?thesis
      using c2
      by (simp add: Let_def later_data_no_frame HandshakeFailure_written
            HandshakeSuccess_written Write_written del: run.simps)
  qed
  from r c1 later show ?thesis
    unfolding Let_def by blast
qed

theorem response_not_retried_after_failed_write_witness:
  "\<not> responseWritten new_serverConn \<and>
   snd (always (0, Some (OtherError ''stream reset'')) (length (Stream new_serverConn))
          (first_frame CallHandshakeSuccess)) = Some (OtherError ''stream reset'') \<and>
   fst (invoke id (always (0, Some (OtherError ''stream reset''))) new_serverConn
          CallHandshakeSuccess) = Returned (Some (OtherError ''stream reset'')) \<and>
   responseWritten (snd (invoke id (always (0, Some (OtherError ''stream reset''))) new_serverConn
          CallHandshakeSuccess)) \<and>
   fst (HandshakeFailure (always (0, Some (OtherError ''stream reset'')))
          (snd (run id (always (0, Some (OtherError ''stream reset'')))
             (snd (invoke id (always (0, Some (OtherError ''stream reset''))) new_serverConn
                CallHandshakeSuccess)) [CallWrite [7]])) (OtherError ''refused'')) = Some ErrClosed"
proof -
  let ?io = "always (0, Some (OtherError ''stream reset''))"
  have fresh: "\<not> responseWritten new_serverConn"
    by (simp add: new_serverConn_def)
  have fails: "snd (?io (length (Stream new_serverConn)) (first_frame CallHandshakeSuccess))
      = Some (OtherError ''stream reset'')"
    by (simp add: always_def)
  note t = response_not_retried_after_failed_write
      [where c = new_serverConn and io = ?io and x = CallHandshakeSuccess
         and e = "OtherError ''stream reset''" and WrapQUIC = id,
       OF fresh fails, unfolded Let_def]
  from t have a: "fst (invoke id ?io new_serverConn CallHandshakeSuccess)
      = Returned (Some (OtherError ''stream reset''))"
    by (simp del: invoke.simps)
  from t have b: "responseWritten (snd (invoke id ?io new_serverConn CallHandshakeSuccess))"
    by blast
  from t have "\<forall>err. HandshakeFailure ?io
          (snd (run id ?io (snd (invoke id ?io new_serverConn CallHandshakeSuccess)) [CallWrite [7]]))
          err =
        (Some ErrClosed,
         snd (run id ?io (snd (invoke id ?io new_serverConn CallHandshakeSuccess)) [CallWrite [7]]))"
    by blast
  then have d: "fst (HandshakeFailure ?io
          (snd (run id ?io (snd (invoke id ?io new_serverConn CallHandshakeSuccess)) [CallWrite [7]]))
          (OtherError ''refused'')) = Some ErrClosed"
    by (simp del: run.simps invoke.simps)
  from fresh fails a b d show ?thesis by blast
qed

subsection \<open>Teardown\<close>






subsection \<open>The stream hijacker\<close>

lemma handleStream0_result:
  "fst (handleStream0 P s frameType stream err) =
     (authenticated s \<and> err = None \<and> frameType = FrameTypeTCPRequest P, None) \<and>
   snd (handleStream0 P s frameType stream err) =
     (if authenticated s \<and> err = None \<and> frameType = FrameTypeTCPRequest P
      then s\<lparr>started := started s @ [HandleStream stream]\<rparr> else s)"
  by (simp add: handleStream0_def)

text \<open>
  Claim C4. \<^verbatim>\<open>handleStream0\<close> claims a stream exactly when \<open>authenticated\<close> is set, the
  error that came with the stream is nil and the frame type is the TCP-request frame type
  (the lemma above). The flag does not tell that authentication succeeded: an
  authentication request with a registered secret that the server rejects for its
  missing rate (receive rate set, client rate ignored, declared rate 0) is answered by the
  masquerade handler, with no congestion controller installed, and leaves the flag set
  (line 221 comes before line 223); a TCP-request stream that follows is claimed.
\<close>

theorem stream_claimed_after_rejected_authentication:
  assumes "Method r = MethodPost" and "Host r = URLHost P" and "Path r = URLPath P"
    and "\<not> authenticated s"
    and "userMap (Service s) (Auth (AuthRequestFromHeader P (Header r))) = Some user"
    and "receiveBPS (Service s) > 0" and "ignoreClientBandwidth (Service s)"
    and "AuthRequest.Rx (AuthRequestFromHeader P (Header r)) = 0"
  shows "fst (ServeHTTP P s r) = MasqueradeReply (masqueradeHandler (Service s)) r \<and>
         quicConn (snd (ServeHTTP P s r)) = quicConn s \<and>
         handleStream0 P s (FrameTypeTCPRequest P) stream None = ((False, None), s) \<and>
         fst (handleStream0 P (snd (ServeHTTP P s r)) (FrameTypeTCPRequest P) stream None) =
           (True, None)"
proof -
  from assms have reply: "fst (ServeHTTP P s r) = MasqueradeReply (masqueradeHandler (Service s)) r"
    and conn: "quicConn (snd (ServeHTTP P s r)) = quicConn s"
    and flag: "authenticated (snd (ServeHTTP P s r))"
    by (simp_all add: ServeHTTP_def Let_def)
  from assms(4) have before: "handleStream0 P s (FrameTypeTCPRequest P) stream None = ((False, None), s)"
    by (simp add: handleStream0_def)
  from flag have after:
    "fst (handleStream0 P (snd (ServeHTTP P s r)) (FrameTypeTCPRequest P) stream None) = (True, None)"
    by (simp add: handleStream0_result)
  from reply conn before after show ?thesis by blast
qed

theorem stream_claimed_after_rejected_authentication_witness:
  "(let s = new_session (scenario_service 0 200000 True) 0; r = scenario_request ''s1'' 0
    in Method r = MethodPost \<and> Host r = URLHost scenario_protocol \<and>
       Path r = URLPath scenario_protocol \<and> \<not> authenticated s \<and>
       userMap (Service s) (Auth (AuthRequestFromHeader scenario_protocol (Header r))) = Some 1 \<and>
       receiveBPS (Service s) > 0 \<and> ignoreClientBandwidth (Service s) \<and>
       AuthRequest.Rx (AuthRequestFromHeader scenario_protocol (Header r)) = 0 \<and>
       fst (ServeHTTP scenario_protocol s r) = MasqueradeReply (Some NotFoundHandler) r \<and>
       quicConn (snd (ServeHTTP scenario_protocol s r)) = [] \<and>
       fst (handleStream0 scenario_protocol (snd (ServeHTTP scenario_protocol s r)) 1025 7 None) =
         (True, None))"
proof -
  let ?P = scenario_protocol
  let ?s = "new_session (scenario_service 0 200000 True) 0"
  let ?r = "scenario_request ''s1'' 0"
  have m: "Method ?r = MethodPost" and h: "Host ?r = URLHost ?P" and p: "Path ?r = URLPath ?P"
    by (simp_all add: scenario_request_def scenario_protocol_def MethodPost_def)
  have u: "\<not> authenticated ?s"
    by (simp add: new_session_def)
  have k: "userMap (Service ?s) (Auth (AuthRequestFromHeader ?P (Header ?r))) = Some 1"
    by (simp add: new_session_def scenario_service_def scenario_request_def scenario_protocol_def)
  have c1: "receiveBPS (Service ?s) > 0" and c2: "ignoreClientBandwidth (Service ?s)"
    by (simp_all add: new_session_def scenario_service_def)
  have c3: "AuthRequest.Rx (AuthRequestFromHeader ?P (Header ?r)) = 0"
    by (simp add: scenario_request_def scenario_protocol_def)
  note t = stream_claimed_after_rejected_authentication [OF m h p u k c1 c2 c3, of 7]
  from t have a: "fst (ServeHTTP ?P ?s ?r) = MasqueradeReply (Some NotFoundHandler) ?r"
    by (simp add: new_session_def scenario_service_def)
  from t have b: "quicConn (snd (ServeHTTP ?P ?s ?r)) = []"
    by (simp add: new_session_def)
  from t have d: "fst (handleStream0 ?P (snd (ServeHTTP ?P ?s ?r)) 1025 7 None) = (True, None)"
    by (simp add: scenario_protocol_def)
  from m h p u k c1 c2 c3 a b d show ?thesis
    unfolding Let_def by blast
qed

subsection \<open>Authentication and the congestion controller\<close>

lemma ServeHTTP_auth_registered:
  assumes "Method r = MethodPost" and "Host r = URLHost P" and "Path r = URLPath P"
    and "\<not> authenticated s"
    and "userMap (Service s) (Auth (AuthRequestFromHeader P (Header r))) = Some user"
  shows "ServeHTTP P s r =
     (let S = Service s; rate = AuthRequest.Rx (AuthRequestFromHeader P (Header r));
          s1 = s\<lparr>authUser := user, authenticated := True\<rparr>
      in if receiveBPS S > 0 \<and> ignoreClientBandwidth S \<and> rate = 0 then
           (MasqueradeReply (masqueradeHandler S) r,
            s1\<lparr>logged := logged s @
               [Debug [Text ''process connection from '', Text (RemoteAddr r),
                       Text '': BBR disabled by server'']]\<rparr>)
         else
           (AuthReply
              \<lparr>UDPEnabled = \<not> udpDisabled S, Rx = receiveBPS S,
               RxAuto = \<not> (\<not> (receiveBPS S = 0 \<and> ignoreClientBandwidth S) \<and> rate > 0)\<rparr>
              (StatusAuthOK P),
            s1\<lparr>quicConn := quicConn s @
                 [if \<not> (receiveBPS S = 0 \<and> ignoreClientBandwidth S) \<and> rate > 0
                  then SetCongestionControl_BrutalSender
                         (if sendBPS S > 0 \<and> rate > sendBPS S then sendBPS S else rate)
                         (brutalDebug S) (logger S)
                  else SetCongestionController ''bbr'' (cwnd S)],
               started := started s @
                 (if Done_not_nil (serverSession.ctx s) then [ContextWatcher] else []) @
                 (if \<not> udpDisabled S then [LoopMessages] else [])\<rparr>))"
  using assms by (simp add: ServeHTTP_def Let_def)

text \<open>
  Claim C2. For an authentication request with a registered secret on a session not yet
  authenticated, the controller installed on the connection and the auto-rate flag of the
  response are given by the server's receive rate, its ignore-client flag, the rate the
  client declared and the server's send cap: the Brutal sender at the declared rate,
  capped by a non-zero send cap, with the flag false, when the client declared a rate and
  the server does not both ignore it and leave its own rate unset; BBR with the configured
  window and the flag true otherwise, the rejected case apart. A declared rate above a
  non-zero send cap gives the cap.
\<close>

theorem congestion_controller_selection:
  assumes "Method r = MethodPost" and "Host r = URLHost P" and "Path r = URLPath P"
    and "\<not> authenticated s"
    and "userMap (Service s) (Auth (AuthRequestFromHeader P (Header r))) = Some user"
  shows "let S = Service s; rate = AuthRequest.Rx (AuthRequestFromHeader P (Header r));
             reply = fst (ServeHTTP P s r); s' = snd (ServeHTTP P s r)
         in (\<not> (receiveBPS S = 0 \<and> ignoreClientBandwidth S) \<and> rate > 0 \<longrightarrow>
               quicConn s' = quicConn s @
                 [SetCongestionControl_BrutalSender
                    (if sendBPS S > 0 then min rate (sendBPS S) else rate)
                    (brutalDebug S) (logger S)] \<and>
               reply = AuthReply
                 \<lparr>UDPEnabled = \<not> udpDisabled S, Rx = receiveBPS S, RxAuto = False\<rparr>
                 (StatusAuthOK P)) \<and>
            (\<not> (\<not> (receiveBPS S = 0 \<and> ignoreClientBandwidth S) \<and> rate > 0) \<and>
             \<not> (receiveBPS S > 0 \<and> ignoreClientBandwidth S \<and> rate = 0) \<longrightarrow>
               quicConn s' = quicConn s @ [SetCongestionController ''bbr'' (cwnd S)] \<and>
               reply = AuthReply
                 \<lparr>UDPEnabled = \<not> udpDisabled S, Rx = receiveBPS S, RxAuto = True\<rparr>
                 (StatusAuthOK P)) \<and>
            (\<not> (receiveBPS S = 0 \<and> ignoreClientBandwidth S) \<and>
             rate > sendBPS S \<and> sendBPS S > 0 \<longrightarrow>
               quicConn s' = quicConn s @
                 [SetCongestionControl_BrutalSender (sendBPS S) (brutalDebug S) (logger S)])"
proof -
  let ?S = "Service s"
  let ?rate = "AuthRequest.Rx (AuthRequestFromHeader P (Header r))"
  note sh = ServeHTTP_auth_registered [OF assms, unfolded Let_def]
  have brutal: "quicConn (snd (ServeHTTP P s r)) = quicConn s @
                 [SetCongestionControl_BrutalSender
                    (if sendBPS ?S > 0 then min ?rate (sendBPS ?S) else ?rate)
                    (brutalDebug ?S) (logger ?S)] \<and>
               fst (ServeHTTP P s r) = AuthReply
                 \<lparr>UDPEnabled = \<not> udpDisabled ?S, Rx = receiveBPS ?S, RxAuto = False\<rparr>
                 (StatusAuthOK P)"
    if "\<not> (receiveBPS ?S = 0 \<and> ignoreClientBandwidth ?S) \<and> ?rate > 0"
  proof -
    from that have "?rate \<noteq> 0" by auto
    with that show ?thesis
      by (auto simp add: sh min_def)
  qed
  have bbr: "quicConn (snd (ServeHTTP P s r)) = quicConn s @
                 [SetCongestionController ''bbr'' (cwnd ?S)] \<and>
               fst (ServeHTTP P s r) = AuthReply
                 \<lparr>UDPEnabled = \<not> udpDisabled ?S, Rx = receiveBPS ?S, RxAuto = True\<rparr>
                 (StatusAuthOK P)"
    if "\<not> (\<not> (receiveBPS ?S = 0 \<and> ignoreClientBandwidth ?S) \<and> ?rate > 0) \<and>
        \<not> (receiveBPS ?S > 0 \<and> ignoreClientBandwidth ?S \<and> ?rate = 0)"
    using that by (auto simp add: sh)
  have cap: "quicConn (snd (ServeHTTP P s r)) = quicConn s @
                 [SetCongestionControl_BrutalSender (sendBPS ?S) (brutalDebug ?S) (logger ?S)]"
    if "\<not> (receiveBPS ?S = 0 \<and> ignoreClientBandwidth ?S) \<and>
        ?rate > sendBPS ?S \<and> sendBPS ?S > 0"
  proof -
    from that have pos: "?rate > 0"
      by (metis word_neq_0_conv word_not_simps(1))
    with that have "\<not> (receiveBPS ?S = 0 \<and> ignoreClientBandwidth ?S) \<and> ?rate > 0"
      by simp
    from brutal [OF this] that show ?thesis
      by (auto simp add: min_def)
  qed
  from brutal bbr cap show ?thesis
    unfolding Let_def by blast
qed

theorem congestion_controller_selection_witness:
  "(let s = new_session (scenario_service 500000 0 False) 0; r = scenario_request ''s1'' 1000000
    in Method r = MethodPost \<and> Host r = URLHost scenario_protocol \<and>
       Path r = URLPath scenario_protocol \<and> \<not> authenticated s \<and>
       userMap (Service s) (Auth (AuthRequestFromHeader scenario_protocol (Header r))) = Some 1 \<and>
       quicConn (snd (ServeHTTP scenario_protocol s r)) =
         [SetCongestionControl_BrutalSender 500000 False (Ref 0)] \<and>
       fst (ServeHTTP scenario_protocol s r) =
         AuthReply \<lparr>UDPEnabled = True, Rx = 0, RxAuto = False\<rparr> 233) \<and>
   (let s = new_session (scenario_service 0 0 True) 0; r = scenario_request ''s1'' 0
    in Method r = MethodPost \<and> Host r = URLHost scenario_protocol \<and>
       Path r = URLPath scenario_protocol \<and> \<not> authenticated s \<and>
       userMap (Service s) (Auth (AuthRequestFromHeader scenario_protocol (Header r))) = Some 1 \<and>
       quicConn (snd (ServeHTTP scenario_protocol s r)) = [SetCongestionController ''bbr'' 32] \<and>
       fst (ServeHTTP scenario_protocol s r) =
         AuthReply \<lparr>UDPEnabled = True, Rx = 0, RxAuto = True\<rparr> 233)"
proof -
  let ?P = scenario_protocol
  let ?s2 = "new_session (scenario_service 500000 0 False) 0"
  let ?r2 = "scenario_request ''s1'' 1000000"
  let ?s1 = "new_session (scenario_service 0 0 True) 0"
  let ?r1 = "scenario_request ''s1'' 0"
  have m2: "Method ?r2 = MethodPost" and h2: "Host ?r2 = URLHost ?P"
    and p2: "Path ?r2 = URLPath ?P"
    by (simp_all add: scenario_request_def scenario_protocol_def MethodPost_def)
  have u2: "\<not> authenticated ?s2"
    by (simp add: new_session_def)
  have k2: "userMap (Service ?s2) (Auth (AuthRequestFromHeader ?P (Header ?r2))) = Some 1"
    by (simp add: new_session_def scenario_service_def scenario_request_def scenario_protocol_def)
  have m1: "Method ?r1 = MethodPost" and h1: "Host ?r1 = URLHost ?P"
    and p1: "Path ?r1 = URLPath ?P"
    by (simp_all add: scenario_request_def scenario_protocol_def MethodPost_def)
  have u1: "\<not> authenticated ?s1"
    by (simp add: new_session_def)
  have k1: "userMap (Service ?s1) (Auth (AuthRequestFromHeader ?P (Header ?r1))) = Some 1"
    by (simp add: new_session_def scenario_service_def scenario_request_def scenario_protocol_def)
  from congestion_controller_selection [OF m2 h2 p2 u2 k2, unfolded Let_def]
  have fixed: "quicConn (snd (ServeHTTP ?P ?s2 ?r2)) =
         [SetCongestionControl_BrutalSender 500000 False (Ref 0)] \<and>
       fst (ServeHTTP ?P ?s2 ?r2) = AuthReply \<lparr>UDPEnabled = True, Rx = 0, RxAuto = False\<rparr> 233"
    by (simp add: new_session_def scenario_service_def scenario_request_def scenario_protocol_def)
  from congestion_controller_selection [OF m1 h1 p1 u1 k1, unfolded Let_def]
  have adaptive: "quicConn (snd (ServeHTTP ?P ?s1 ?r1)) = [SetCongestionController ''bbr'' 32] \<and>
       fst (ServeHTTP ?P ?s1 ?r1) = AuthReply \<lparr>UDPEnabled = True, Rx = 0, RxAuto = True\<rparr> 233"
    by (simp add: new_session_def scenario_service_def scenario_request_def scenario_protocol_def)
  from m2 h2 p2 u2 k2 fixed m1 h1 p1 u1 k1 adaptive show ?thesis
    unfolding Let_def by blast
qed

text \<open>
  Claim C1, evaluated on scenario 3 of the specification: receive rate 200000, client
  rate ignored, the registered secret \<open>s1\<close> and a declared rate of 0. The request goes to
  the masquerade handler, and the session is authenticated afterwards: line 221 sets the
  flag before line 223 rejects.
\<close>

theorem rejected_rate_leaves_session_authenticated:
  "fst (ServeHTTP scenario_protocol (new_session (scenario_service 0 200000 True) 0)
          (scenario_request ''s1'' 0)) =
     MasqueradeReply (Some NotFoundHandler) (scenario_request ''s1'' 0) \<and>
   authenticated (snd (ServeHTTP scenario_protocol (new_session (scenario_service 0 200000 True) 0)
          (scenario_request ''s1'' 0)))"
  by (simp add: ServeHTTP_def scenario_protocol_def new_session_def
        scenario_service_def scenario_request_def MethodPost_def)

text \<open>
  Claim C5, evaluated on a service that neither sets a receive rate nor ignores the
  client's rate, and a client that declares no rate. The first response reports
  \<open>RxAuto = true\<close> (BBR was installed, line 235); the response to a second
  authentication request on the same session reports \<open>RxAuto = false\<close> (line 209).
\<close>

theorem reauth_reply_differs_from_first:
  "fst (ServeHTTP scenario_protocol (new_session (scenario_service 0 0 False) 0)
          (scenario_request ''s1'' 0)) =
     AuthReply \<lparr>UDPEnabled = True, Rx = 0, RxAuto = True\<rparr> 233 \<and>
   fst (ServeHTTP scenario_protocol
          (snd (ServeHTTP scenario_protocol (new_session (scenario_service 0 0 False) 0)
             (scenario_request ''s1'' 0)))
          (scenario_request ''s1'' 0)) =
     AuthReply \<lparr>UDPEnabled = True, Rx = 0, RxAuto = False\<rparr> 233"
  by (simp add: ServeHTTP_def scenario_protocol_def new_session_def
        scenario_service_def scenario_request_def MethodPost_def)

subsection \<open>The constructor\<close>

lemma fill_defaults:
  "(if MaxIncomingStreams q = 0 then q\<lparr>MaxIncomingStreams := a\<rparr> else q) =
     q\<lparr>MaxIncomingStreams := (if MaxIncomingStreams q = 0 then a else MaxIncomingStreams q)\<rparr>"
  "(if InitialStreamReceiveWindow q = 0 then q\<lparr>InitialStreamReceiveWindow := b\<rparr> else q) =
     q\<lparr>InitialStreamReceiveWindow :=
        (if InitialStreamReceiveWindow q = 0 then b else InitialStreamReceiveWindow q)\<rparr>"
  "(if MaxStreamReceiveWindow q = 0 then q\<lparr>MaxStreamReceiveWindow := b\<rparr> else q) =
     q\<lparr>MaxStreamReceiveWindow :=
        (if MaxStreamReceiveWindow q = 0 then b else MaxStreamReceiveWindow q)\<rparr>"
  "(if InitialConnectionReceiveWindow q = 0 then q\<lparr>InitialConnectionReceiveWindow := b\<rparr> else q) =
     q\<lparr>InitialConnectionReceiveWindow :=
        (if InitialConnectionReceiveWindow q = 0 then b else InitialConnectionReceiveWindow q)\<rparr>"
  "(if MaxConnectionReceiveWindow q = 0 then q\<lparr>MaxConnectionReceiveWindow := b\<rparr> else q) =
     q\<lparr>MaxConnectionReceiveWindow :=
        (if MaxConnectionReceiveWindow q = 0 then b else MaxConnectionReceiveWindow q)\<rparr>"
  "(if MaxIdleTimeout q = 0 then q\<lparr>MaxIdleTimeout := a\<rparr> else q) =
     q\<lparr>MaxIdleTimeout := (if MaxIdleTimeout q = 0 then a else MaxIdleTimeout q)\<rparr>"
  "(if KeepAlivePeriod q = 0 then q\<lparr>KeepAlivePeriod := a\<rparr> else q) =
     q\<lparr>KeepAlivePeriod := (if KeepAlivePeriod q = 0 then a else KeepAlivePeriod q)\<rparr>"
  by simp_all

lemma fill_masquerade:
  "(if MasqueradeHandler options = None
    then options\<lparr>MasqueradeHandler := Some NotFoundHandler\<rparr> else options) =
   options\<lparr>MasqueradeHandler :=
     (case MasqueradeHandler options of None \<Rightarrow> Some NotFoundHandler | Some h \<Rightarrow> Some h)\<rparr>"
  by (cases "MasqueradeHandler options") simp_all

lemma fill_NextProtos:
  "(if length (NextProtos t) = 0 then t\<lparr>NextProtos := [''h3'']\<rparr> else t) =
   t\<lparr>NextProtos := (if NextProtos t = [] then [''h3''] else NextProtos t)\<rparr>"
  by simp

lemma NewService_explicit:
  "TLSConfig options = Some t \<Longrightarrow>
     (NewService D GOOS options :: panic + 'u Service \<times> error option) =
       (let given = (case QUICConfig options of None \<Rightarrow> zero_quic_config | Some q \<Rightarrow> q)
        in Inr (\<lparr>Service.ctx = Context options,
                  logger = Logger options,
                  brutalDebug = BrutalDebug options,
                  sendBPS = SendBPS options,
                  receiveBPS = ReceiveBPS options,
                  ignoreClientBandwidth = IgnoreClientBandwidth options,
                  salamanderPassword = SalamanderPassword options,
                  tlsConfig = t\<lparr>NextProtos := (if NextProtos t = [] then [''h3''] else NextProtos t)\<rparr>,
                  quicConfig = given
          \<lparr>DisablePathManager := True,
           DisablePathMTUDiscovery :=
             \<not> (GOOS = ''windows'' \<or> GOOS = ''linux'' \<or> GOOS = ''android'' \<or> GOOS = ''darwin''),
           EnableDatagrams := \<not> UDPDisabled options,
           MaxIncomingStreams :=
             (if MaxIncomingStreams given = 0 then push_bit 60 1 else MaxIncomingStreams given),
           InitialStreamReceiveWindow :=
             (if InitialStreamReceiveWindow given = 0 then DefaultStreamReceiveWindow D
              else InitialStreamReceiveWindow given),
           MaxStreamReceiveWindow :=
             (if MaxStreamReceiveWindow given = 0 then DefaultStreamReceiveWindow D
              else MaxStreamReceiveWindow given),
           InitialConnectionReceiveWindow :=
             (if InitialConnectionReceiveWindow given = 0 then DefaultConnReceiveWindow D
              else InitialConnectionReceiveWindow given),
           MaxConnectionReceiveWindow :=
             (if MaxConnectionReceiveWindow given = 0 then DefaultConnReceiveWindow D
              else MaxConnectionReceiveWindow given),
           MaxIdleTimeout :=
             (if MaxIdleTimeout given = 0 then DefaultMaxIdleTimeout D else MaxIdleTimeout given),
           KeepAlivePeriod :=
             (if KeepAlivePeriod given = 0 then DefaultKeepAlivePeriod D
              else KeepAlivePeriod given)\<rparr>,
                  userMap = Map.empty,
                  udpDisabled = UDPDisabled options,
                  udpTimeout = UDPTimeout options,
                  handler = Handler options,
                  masqueradeHandler =
                    (case MasqueradeHandler options of None \<Rightarrow> Some NotFoundHandler
                     | Some h \<Rightarrow> Some h),
                  quicListener = NilRef,
                  cwnd = CWND options,
                  udpMTU = UdpMTU options\<rparr>, None))"
  unfolding NewService_def fill_defaults fill_masquerade fill_NextProtos
  by (simp add: Let_def split del: if_split cong: if_cong)

text \<open>
  Claim C8, as the code has it. Given options with a TLS configuration, \<^verbatim>\<open>NewService\<close>
  returns a service and a nil error. Each of the seven tuning fields of its QUIC
  configuration is the default when the given one (the zero configuration when the options
  carry none) is zero, and the given value otherwise. The context, logger, debug flag,
  rates, ignore flag, obfuscation password, UDP settings, handler, window and MTU are those
  of the options; the masquerade handler is that of the options, or the not-found handler
  when the options have none; the TLS configuration is the given one, with \<open>h3\<close> as its
  protocol list when that is empty.
\<close>

theorem NewService_fills_defaults:
  assumes "TLSConfig options = Some t"
  shows "let res = (NewService D GOOS options :: panic + 'u Service \<times> error option);
             svc = fst (projr res);
             q = quicConfig svc;
             given = (case QUICConfig options of None \<Rightarrow> zero_quic_config | Some c \<Rightarrow> c)
         in \<not> isl res \<and> snd (projr res) = None \<and>
            MaxIncomingStreams q =
              (if MaxIncomingStreams given = 0 then push_bit 60 1 else MaxIncomingStreams given) \<and>
            InitialStreamReceiveWindow q =
              (if InitialStreamReceiveWindow given = 0 then DefaultStreamReceiveWindow D
               else InitialStreamReceiveWindow given) \<and>
            MaxStreamReceiveWindow q =
              (if MaxStreamReceiveWindow given = 0 then DefaultStreamReceiveWindow D
               else MaxStreamReceiveWindow given) \<and>
            InitialConnectionReceiveWindow q =
              (if InitialConnectionReceiveWindow given = 0 then DefaultConnReceiveWindow D
               else InitialConnectionReceiveWindow given) \<and>
            MaxConnectionReceiveWindow q =
              (if MaxConnectionReceiveWindow given = 0 then DefaultConnReceiveWindow D
               else MaxConnectionReceiveWindow given) \<and>
            MaxIdleTimeout q =
              (if MaxIdleTimeout given = 0 then DefaultMaxIdleTimeout D else MaxIdleTimeout given) \<and>
            KeepAlivePeriod q =
              (if KeepAlivePeriod given = 0 then DefaultKeepAlivePeriod D
               else KeepAlivePeriod given) \<and>
            Service.ctx svc = Context options \<and>
            logger svc = Logger options \<and>
            brutalDebug svc = BrutalDebug options \<and>
            sendBPS svc = SendBPS options \<and>
            receiveBPS svc = ReceiveBPS options \<and>
            ignoreClientBandwidth svc = IgnoreClientBandwidth options \<and>
            salamanderPassword svc = SalamanderPassword options \<and>
            udpDisabled svc = UDPDisabled options \<and>
            udpTimeout svc = UDPTimeout options \<and>
            handler svc = Handler options \<and>
            cwnd svc = CWND options \<and>
            udpMTU svc = UdpMTU options \<and>
            masqueradeHandler svc =
              (case MasqueradeHandler options of None \<Rightarrow> Some NotFoundHandler
               | Some h \<Rightarrow> Some h) \<and>
            tlsConfig svc =
              t\<lparr>NextProtos := (if NextProtos t = [] then [''h3''] else NextProtos t)\<rparr>"
  unfolding Let_def NewService_explicit [OF assms, unfolded Let_def]
  by (intro conjI) simp_all

theorem NewService_fills_defaults_witness:
  "TLSConfig scenario_options = Some \<lparr>NextProtos = []\<rparr> \<and>
   (let res = (NewService scenario_defaults ''linux'' scenario_options
                 :: panic + nat Service \<times> error option);
        svc = fst (projr res)
    in \<not> isl res \<and> snd (projr res) = None \<and>
       MaxIncomingStreams (quicConfig svc) = 1152921504606846976 \<and>
       InitialStreamReceiveWindow (quicConfig svc) = 8388608 \<and>
       MaxStreamReceiveWindow (quicConfig svc) = 9 \<and>
       MaxIdleTimeout (quicConfig svc) = 7 \<and>
       KeepAlivePeriod (quicConfig svc) = 10000000000 \<and>
       sendBPS svc = 500000 \<and>
       masqueradeHandler svc = Some NotFoundHandler \<and>
       tlsConfig svc = \<lparr>NextProtos = [''h3'']\<rparr>)"
proof -
  have tls: "TLSConfig scenario_options = Some \<lparr>NextProtos = []\<rparr>"
    by (simp add: scenario_options_def)
  note t = NewService_fills_defaults
      [OF tls, of scenario_defaults "''linux''", where 'u = nat, unfolded Let_def]
  have q: "QUICConfig scenario_options =
      Some (zero_quic_config\<lparr>MaxIdleTimeout := 7, MaxStreamReceiveWindow := 9\<rparr>)"
    by (simp add: scenario_options_def)
  have m: "MasqueradeHandler scenario_options = None" "SendBPS scenario_options = 500000"
    by (simp_all add: scenario_options_def)
  from t have a: "\<not> isl (NewService scenario_defaults ''linux'' scenario_options
                 :: panic + nat Service \<times> error option)"
    "snd (projr (NewService scenario_defaults ''linux'' scenario_options
                 :: panic + nat Service \<times> error option)) = None"
    by blast+
  from t have b: "MaxIncomingStreams (quicConfig (fst (projr (NewService scenario_defaults ''linux''
      scenario_options :: panic + nat Service \<times> error option)))) = 1152921504606846976"
    by (simp add: q zero_quic_config_def)
  from t have c: "InitialStreamReceiveWindow (quicConfig (fst (projr (NewService scenario_defaults
      ''linux'' scenario_options :: panic + nat Service \<times> error option)))) = 8388608"
    by (simp add: q zero_quic_config_def scenario_defaults_def)
  from t have d: "MaxStreamReceiveWindow (quicConfig (fst (projr (NewService scenario_defaults
      ''linux'' scenario_options :: panic + nat Service \<times> error option)))) = 9"
    by (simp add: q zero_quic_config_def scenario_defaults_def)
  from t have e: "MaxIdleTimeout (quicConfig (fst (projr (NewService scenario_defaults
      ''linux'' scenario_options :: panic + nat Service \<times> error option)))) = 7"
    by (simp add: q zero_quic_config_def scenario_defaults_def)
  from t have f: "KeepAlivePeriod (quicConfig (fst (projr (NewService scenario_defaults
      ''linux'' scenario_options :: panic + nat Service \<times> error option)))) = 10000000000"
    by (simp add: q zero_quic_config_def scenario_defaults_def)
  from t have g: "sendBPS (fst (projr (NewService scenario_defaults
      ''linux'' scenario_options :: panic + nat Service \<times> error option))) = 500000"
    by (simp add: m)
  from t have h: "masqueradeHandler (fst (projr (NewService scenario_defaults
      ''linux'' scenario_options :: panic + nat Service \<times> error option))) = Some NotFoundHandler"
    by (simp add: m)
  from t have i: "tlsConfig (fst (projr (NewService scenario_defaults
      ''linux'' scenario_options :: panic + nat Service \<times> error option))) = \<lparr>NextProtos = [''h3'']\<rparr>"
    by simp
  from tls a b c d e f g h i show ?thesis
    unfolding Let_def by blast
qed

text \<open>
  With no masquerade handler in the options, the service's masquerade handler is not the
  option's (nil) but the not-found handler (lines 102 to 104).
\<close>

theorem NewService_nil_masquerade_counterexample:
  "\<not> isl (NewService scenario_defaults ''linux'' scenario_options
            :: panic + nat Service \<times> error option) \<and>
   masqueradeHandler (fst (projr (NewService scenario_defaults ''linux'' scenario_options
            :: panic + nat Service \<times> error option))) \<noteq> MasqueradeHandler scenario_options"
  by (simp add: NewService_explicit [where t = "\<lparr>NextProtos = []\<rparr>"] scenario_options_def
        Let_def)

end
